theory Spec2Isabelle
  imports Main
begin

section \<open>The Twitch client of twitchAPI/twitch.py\<close>

subsection \<open>Data model\<close>

text \<open>
  The exceptions the module raises. \<open>UnauthorizedException\<close> and
  \<open>MissingScopeException\<close> come from \<open>.types\<close>; \<open>Exception\<close> is the builtin the
  module raises with a message, and \<open>AuthenticationFailed c t\<close> is that builtin with
  the message \<open>f'Authentication failed with code {c} ({t})'\<close>; \<open>TypeError\<close> is what
  the interpreter raises on a call with a wrong number of arguments, on subscripting a
  value that is no dictionary with a string, or on a comparison of a naive with an aware
  datetime (its message depends on the interpreter version and is not kept);
  \<open>ValueError\<close> is what \<open>json()\<close> raises on a body it cannot decode;
  \<open>RequestException\<close> is a failure of the HTTP transport.
\<close>

datatype error =
    UnauthorizedException string
  | MissingScopeException string
  | Exception string
  | AuthenticationFailed int string
  | TypeError
  | ValueError
  | RequestException string

text \<open>
  \<open>AuthType\<close> is imported from \<open>.types\<close>; these are the members the module names.
  \<open>__generate_header\<close> compares with \<open>APP\<close> and \<open>USER\<close> and treats every other
  member alike.
\<close>

datatype AuthType = NONE | APP | USER

text \<open>
  A \<open>datetime\<close> argument: a point in time, and whether it carries a time zone.
  Comparing a naive with an aware datetime raises \<open>TypeError\<close>.
\<close>

record datetime =
  instant :: int
  aware :: bool

definition dt_less :: "datetime \<Rightarrow> datetime \<Rightarrow> error + bool" where
  "dt_less a b = (if aware a \<noteq> aware b then Inl TypeError else Inr (instant a < instant b))"

text \<open>
  The values the module handles without looking at their type: what \<open>json()\<close> decodes
  (\<open>PNone\<close>, \<open>PBool\<close>, \<open>PInt\<close>, \<open>PStr\<close>, \<open>PList\<close>, \<open>PDict\<close>; numbers are
  integers here, and the keys of a \<open>PDict\<close> are distinct), and what the normalisers of
  \<open>.helper\<close> put into a decoded body (\<open>PEnum\<close>, a member of an enumeration of
  \<open>.types\<close>; \<open>PDate\<close>).
\<close>

datatype 'e pyval =
    PNone
  | PBool bool
  | PInt int
  | PStr string
  | PEnum 'e
  | PDate datetime
  | PList "'e pyval list"
  | PDict "(string \<times> 'e pyval) list"

text \<open>A key of a parameter dictionary literal: a string, or whatever else was written.\<close>

datatype pkey = KStr string | KInt int

text \<open>
  A header value is a string. \<open>Bearer v\<close> stands for the string the f-string
  \<open>f'Bearer {v}'\<close> builds from the stored token \<open>v\<close>: for \<open>v = PStr t\<close> the word
  Bearer, a space and \<open>t\<close>.
\<close>

datatype 'e header_value = Str string | Bearer "'e pyval"

text \<open>
  The attributes of class \<open>Twitch\<close> (the double underscore of the private ones is
  dropped). \<open>AuthScope\<close> is imported from \<open>.types\<close> and stays a type parameter
  \<open>'s\<close>. A token is \<open>None\<close>, the string given to \<open>set_user_authentication\<close>, or
  what the token endpoint sent as \<open>access_token\<close>.
\<close>

record ('s, 'e) Twitch =
  app_id :: string
  app_secret :: string
  app_auth_token :: "'e pyval"
  app_auth_scope :: "'s list"
  has_app_auth :: bool
  user_auth_token :: "'e pyval"
  user_auth_scope :: "'s list"
  has_user_auth :: bool

text \<open>\<open>__init__\<close>: the class-level defaults, with the two constructor arguments.\<close>

definition init :: "string \<Rightarrow> string \<Rightarrow> ('s, 'e) Twitch" where
  "init aid asecret =
     \<lparr>app_id = aid, app_secret = asecret,
      app_auth_token = PNone, app_auth_scope = [], has_app_auth = False,
      user_auth_token = PNone, user_auth_scope = [], has_user_auth = False\<rparr>"

subsection \<open>The HTTP transport and the imported names\<close>

text \<open>
  \<open>requests.get\<close> and \<open>requests.post\<close>: a request is the method, the URL, the
  \<open>headers\<close> keyword (absent in the token request) and the \<open>json\<close> keyword. The
  transport answers with a response or raises. \<open>json_body = None\<close> is a body that
  \<open>json()\<close> cannot decode. Every operation returns, next to its result, the requests
  it has sent, in order.
\<close>

datatype http_method = GET | POST

record 'e request =
  req_method :: http_method
  req_url :: string
  req_headers :: "(string \<times> 'e header_value) list option"
  req_json :: "'e pyval option"

record 'e response =
  status_code :: int
  body_text :: string
  json_body :: "'e pyval option"

type_synonym 'e transport = "'e request \<Rightarrow> error + 'e response"

definition response_json :: "'e response \<Rightarrow> error + 'e pyval" where
  "response_json r = (case json_body r of None \<Rightarrow> Inl ValueError | Some d \<Rightarrow> Inr d)"

text \<open>
  The names the module imports and this repository does not define in twitch.py:
  from \<open>.helper\<close> the URL builder (base, parameters, \<open>remove_none\<close>,
  \<open>split_lists\<close>), \<open>build_scope\<close>, \<open>make_fields_datetime\<close> and the two base URLs;
  from \<open>.types\<close> the \<open>name\<close> of a scope, the two scopes the analytics operations
  require, the \<open>value\<close> of a report type, and the enumeration \<open>CodeStatus\<close> (called
  with a string: the member it denotes, or an exception) with its member
  \<open>UNKNOWN_VALUE\<close>; from the standard
  library \<open>datetime.isoformat\<close>.
\<close>

record ('s, 'r, 'e) imported =
  build_url :: "string \<Rightarrow> (pkey \<times> 'e pyval) list \<Rightarrow> bool \<Rightarrow> bool \<Rightarrow> string"
  build_scope :: "'s list \<Rightarrow> string"
  make_fields_datetime :: "'e pyval \<Rightarrow> string list \<Rightarrow> error + 'e pyval"
  TWITCH_API_BASE_URL :: string
  TWITCH_AUTH_BASE_URL :: string
  scope_name :: "'s \<Rightarrow> string"
  ANALYTICS_READ_EXTENSION :: 's
  ANALYTICS_READ_GAMES :: 's
  report_value :: "'r \<Rightarrow> 'e pyval"
  CodeStatus :: "string \<Rightarrow> error + 'e"
  UNKNOWN_VALUE :: 'e
  isoformat :: "datetime \<Rightarrow> string"

subsection \<open>Building the request headers\<close>

text \<open>
  The loop \<open>for s in required_scope: if s not in granted: raise ...\<close>: the scope at
  which it raises, if any.
\<close>

fun first_missing :: "'s list \<Rightarrow> 's list \<Rightarrow> 's option" where
  "first_missing [] granted = None"
| "first_missing (s # rest) granted =
     (if s \<notin> set granted then Some s else first_missing rest granted)"

text \<open>
  \<open>__generate_header\<close>. The header dictionary is an association list in insertion
  order; \<open>nm\<close> is the \<open>name\<close> attribute of an \<open>AuthScope\<close> member.
\<close>

definition generate_header ::
  "('s \<Rightarrow> string) \<Rightarrow> ('s, 'e) Twitch \<Rightarrow> AuthType \<Rightarrow> 's list
     \<Rightarrow> error + (string \<times> 'e header_value) list" where
  "generate_header nm self auth_type required_scope =
     (let header = [(''Client-ID'', Str (app_id self))] in
      if auth_type = APP then
        (if \<not> has_app_auth self then Inl (UnauthorizedException ''Require app authentication!'')
         else case first_missing required_scope (app_auth_scope self) of
           Some s \<Rightarrow> Inl (MissingScopeException (''Require app auth scope '' @ nm s))
         | None \<Rightarrow> Inr (header @ [(''Authorization'', Bearer (app_auth_token self))]))
      else if auth_type = USER then
        (if \<not> has_user_auth self then Inl (UnauthorizedException ''require user authentication!'')
         else case first_missing required_scope (user_auth_scope self) of
           Some s \<Rightarrow> Inl (MissingScopeException (''Require user auth scope '' @ nm s))
         | None \<Rightarrow> Inr (header @ [(''Authorization'', Bearer (user_auth_token self))]))
      else if has_user_auth self \<or> has_app_auth self then
        Inr (header @ [(''Authorization'',
               Bearer (if has_user_auth self then user_auth_token self
                       else app_auth_token self))])
      else Inr header)"

subsection \<open>Issuing requests\<close>

text \<open>
  \<open>__api_get_request\<close> and \<open>__api_post_request\<close>. Their parameter
  \<open>required_scope\<close> has no default: a call that leaves it out (\<open>None\<close> here) raises
  \<open>TypeError\<close> before the body runs.
\<close>

definition api_get_request ::
  "('s \<Rightarrow> string) \<Rightarrow> 'e transport \<Rightarrow> ('s, 'e) Twitch \<Rightarrow> string \<Rightarrow> AuthType \<Rightarrow> 's list option
     \<Rightarrow> (error + 'e response) \<times> 'e request list" where
  "api_get_request nm tr self url auth_type required_scope =
     (case required_scope of
        None \<Rightarrow> (Inl TypeError, [])
      | Some rs \<Rightarrow>
          (case generate_header nm self auth_type rs of
             Inl e \<Rightarrow> (Inl e, [])
           | Inr headers \<Rightarrow>
               (let rq = \<lparr>req_method = GET, req_url = url, req_headers = Some headers,
                          req_json = None\<rparr>
                in (tr rq, [rq]))))"

definition api_post_request ::
  "('s \<Rightarrow> string) \<Rightarrow> 'e transport \<Rightarrow> ('s, 'e) Twitch \<Rightarrow> string \<Rightarrow> AuthType \<Rightarrow> 's list option
     \<Rightarrow> 'e pyval option \<Rightarrow> (error + 'e response) \<times> 'e request list" where
  "api_post_request nm tr self url auth_type required_scope data =
     (case required_scope of
        None \<Rightarrow> (Inl TypeError, [])
      | Some rs \<Rightarrow>
          (case generate_header nm self auth_type rs of
             Inl e \<Rightarrow> (Inl e, [])
           | Inr headers \<Rightarrow>
               (let rq = \<lparr>req_method = POST, req_url = url, req_headers = Some headers,
                          req_json = data\<rparr>
                in (tr rq, [rq]))))"

subsection \<open>Authentication\<close>

text \<open>The one request \<open>__generate_app_token\<close> sends.\<close>

definition app_token_request :: "('s, 'r, 'e) imported \<Rightarrow> ('s, 'e) Twitch \<Rightarrow> 'e request" where
  "app_token_request env self =
     (let params = [(KStr ''client_id'', PStr (app_id self)),
                    (KStr ''client_secret'', PStr (app_secret self)),
                    (KStr ''grant_type'', PStr ''client_credentials''),
                    (KStr ''scope'', PStr (build_scope env (app_auth_scope self)))];
          url = build_url env (TWITCH_AUTH_BASE_URL env @ ''oauth2/token'') params False False
      in \<lparr>req_method = POST, req_url = url, req_headers = None, req_json = None\<rparr>)"

text \<open>
  \<open>__generate_app_token\<close>: the exception raised, if any, the client afterwards and
  the requests sent. Subscripting a decoded body that is not a dictionary raises
  \<open>TypeError\<close>, which the \<open>try\<close> does not catch.
\<close>

definition generate_app_token ::
  "('s, 'r, 'e) imported \<Rightarrow> 'e transport \<Rightarrow> ('s, 'e) Twitch
     \<Rightarrow> error option \<times> ('s, 'e) Twitch \<times> 'e request list" where
  "generate_app_token env tr self =
     (let rq = app_token_request env self in
      case tr rq of
        Inl e \<Rightarrow> (Some e, self, [rq])
      | Inr result \<Rightarrow>
          if status_code result \<noteq> 200 then
            (Some (AuthenticationFailed (status_code result) (body_text result)), self, [rq])
          else
            (case json_body result of
               None \<Rightarrow>
                 (Some (Exception ''Authentication response did not have a valid json body''),
                  self, [rq])
             | Some (PDict data) \<Rightarrow>
                 (case map_of data ''access_token'' of
                    None \<Rightarrow>
                      (Some (Exception ''Authentication response did not contain access_token''),
                       self, [rq])
                  | Some token \<Rightarrow> (None, self\<lparr>app_auth_token := token\<rparr>, [rq]))
             | Some _ \<Rightarrow> (Some TypeError, self, [rq])))"

definition authenticate_app ::
  "('s, 'r, 'e) imported \<Rightarrow> 'e transport \<Rightarrow> ('s, 'e) Twitch \<Rightarrow> 's list
     \<Rightarrow> error option \<times> ('s, 'e) Twitch \<times> 'e request list" where
  "authenticate_app env tr self scope =
     (case generate_app_token env tr (self\<lparr>app_auth_scope := scope\<rparr>) of
        (Some e, self', sent) \<Rightarrow> (Some e, self', sent)
      | (None, self', sent) \<Rightarrow> (None, self'\<lparr>has_app_auth := True\<rparr>, sent))"

definition set_user_authentication ::
  "('s, 'e) Twitch \<Rightarrow> string \<Rightarrow> 's list \<Rightarrow> ('s, 'e) Twitch" where
  "set_user_authentication self token scope =
     self\<lparr>user_auth_token := PStr token, user_auth_scope := scope, has_user_auth := True\<rparr>"

subsection \<open>Normalising enumeration fields\<close>

text \<open>
  The results of a list of steps run in order: the values when every step returns, else
  the first exception.
\<close>

fun all_ok :: "(error + 'a) list \<Rightarrow> error + 'a list" where
  "all_ok [] = Inr []"
| "all_ok (r # rs) =
     (case r of
        Inl e \<Rightarrow> Inl e
      | Inr v \<Rightarrow> (case all_ok rs of Inl e \<Rightarrow> Inl e | Inr vs \<Rightarrow> Inr (v # vs)))"

text \<open>
  Modelled from the spec: \<open>fields_to_enum\<close> of \<open>.helper\<close> (\<open>toEnum\<close>, section 4.5),
  which is not among the sources. Its third argument is the enumeration, called with a
  string: it returns the member the string denotes, or raises when the string denotes
  none. For each named field that holds a string, \<open>fields_to_enum\<close> puts the member
  the string denotes in its place, and the fallback when the enumeration raises; it
  works alike on a record, on a list of records and on what is nested in them, and leaves
  every other value as it is. Like the other normaliser it returns the body or an
  exception.
\<close>

fun fields_to_enum ::
  "'e pyval \<Rightarrow> string list \<Rightarrow> (string \<Rightarrow> error + 'e) \<Rightarrow> 'e \<Rightarrow> error + 'e pyval" where
  "fields_to_enum (PDict items) field_names enum fallback =
     (case all_ok (map (\<lambda>(k, v).
             case (case v of
                     PStr s \<Rightarrow>
                       if k \<in> set field_names
                       then Inr (PEnum (case enum s of Inr c \<Rightarrow> c | Inl e \<Rightarrow> fallback))
                       else Inr (PStr s)
                   | _ \<Rightarrow> fields_to_enum v field_names enum fallback) of
               Inl e \<Rightarrow> Inl e
             | Inr v' \<Rightarrow> Inr (k, v')) items) of
        Inl e \<Rightarrow> Inl e
      | Inr items' \<Rightarrow> Inr (PDict items'))"
| "fields_to_enum (PList xs) field_names enum fallback =
     (case all_ok (map (\<lambda>x. fields_to_enum x field_names enum fallback) xs) of
        Inl e \<Rightarrow> Inl e
      | Inr xs' \<Rightarrow> Inr (PList xs'))"
| "fields_to_enum v field_names enum fallback = Inr v"

text \<open>
  What \<open>fields_to_enum\<close> puts in the place of the value \<open>v\<close> of the key \<open>k\<close>
  of a record.
\<close>

definition item_result ::
  "string list \<Rightarrow> (string \<Rightarrow> error + 'e) \<Rightarrow> 'e \<Rightarrow> string \<Rightarrow> 'e pyval \<Rightarrow> error + 'e pyval" where
  "item_result field_names enum fallback k v =
     (case v of
        PStr s \<Rightarrow>
          if k \<in> set field_names
          then Inr (PEnum (case enum s of Inr c \<Rightarrow> c | Inl e \<Rightarrow> fallback))
          else Inr (PStr s)
      | _ \<Rightarrow> fields_to_enum v field_names enum fallback)"

text \<open>
  Where a value sits in a body: a sequence of subscripts, each the key of a record or
  the index of a list. \<open>value_at body p\<close> is \<open>body[p1][p2]...\<close>, or \<open>None\<close> when a
  subscript does not apply.
\<close>

datatype subscript = Key string | Index nat

fun value_at :: "'e pyval \<Rightarrow> subscript list \<Rightarrow> 'e pyval option" where
  "value_at v [] = Some v"
| "value_at (PDict items) (Key k # p) =
     (case map_of items k of None \<Rightarrow> None | Some v \<Rightarrow> value_at v p)"
| "value_at (PList xs) (Index i # p) = (if i < length xs then value_at (xs ! i) p else None)"
| "value_at v (i # p) = None"

subsection \<open>The operations\<close>

text \<open>An argument of type \<open>Union[str, None]\<close> as a dictionary value.\<close>

definition opt_str :: "string option \<Rightarrow> 'e pyval" where
  "opt_str x = (case x of None \<Rightarrow> PNone | Some s \<Rightarrow> PStr s)"

text \<open>\<open>d.isoformat() if d is not None else None\<close>.\<close>

definition opt_iso :: "('s, 'r, 'e) imported \<Rightarrow> datetime option \<Rightarrow> 'e pyval" where
  "opt_iso env d = (case d of None \<Rightarrow> PNone | Some t \<Rightarrow> PStr (isoformat env t))"

text \<open>\<open>report_type.value if report_type is not None else None\<close>.\<close>

definition opt_report :: "('s, 'r, 'e) imported \<Rightarrow> 'r option \<Rightarrow> 'e pyval" where
  "opt_report env r = (case r of None \<Rightarrow> PNone | Some t \<Rightarrow> report_value env t)"

text \<open>
  What every operation does with the answer of the request helper: \<open>response.json()\<close>,
  then the normaliser \<open>post\<close> of the operation.
\<close>

definition decode ::
  "('e pyval \<Rightarrow> error + 'e pyval) \<Rightarrow> (error + 'e response) \<times> 'e request list
     \<Rightarrow> (error + 'e pyval) \<times> 'e request list" where
  "decode post answer =
     (case answer of
        (Inl e, sent) \<Rightarrow> (Inl e, sent)
      | (Inr response, sent) \<Rightarrow>
          (case response_json response of
             Inl e \<Rightarrow> (Inl e, sent)
           | Inr data \<Rightarrow> (post data, sent)))"

text \<open>\<open>get_webhook_subscriptions\<close>: it calls the GET helper with two arguments.\<close>

definition get_webhook_subscriptions ::
  "('s, 'r, 'e) imported \<Rightarrow> 'e transport \<Rightarrow> ('s, 'e) Twitch \<Rightarrow> string option \<Rightarrow> string option
     \<Rightarrow> (error + 'e pyval) \<times> 'e request list" where
  "get_webhook_subscriptions env tr self first after =
     (let url = build_url env (TWITCH_API_BASE_URL env @ ''webhooks/subscriptions'')
                  [(KStr ''first'', opt_str first), (KStr ''after'', opt_str after)] True False
      in decode Inr (api_get_request (scope_name env) tr self url APP None))"

definition get_extension_analytics ::
  "('s, 'r, 'e) imported \<Rightarrow> 'e transport \<Rightarrow> ('s, 'e) Twitch \<Rightarrow> string option \<Rightarrow> string option
     \<Rightarrow> int \<Rightarrow> datetime option \<Rightarrow> datetime option \<Rightarrow> 'r option
     \<Rightarrow> (error + 'e pyval) \<times> 'e request list" where
  "get_extension_analytics env tr self after extension_id first ended_at started_at report_type =
     (case (if ended_at \<noteq> None \<or> started_at \<noteq> None then
              (if ended_at = None \<or> started_at = None then
                 Some (Exception ''you must specify both ended_at and started_at'')
               else case dt_less (the ended_at) (the started_at) of
                      Inl e \<Rightarrow> Some e
                    | Inr later \<Rightarrow>
                        if later then Some (Exception ''started_at must be before ended_at'')
                        else None)
            else None) of
        Some e \<Rightarrow> (Inl e, [])
      | None \<Rightarrow>
          if first > 100 \<or> first < 1 then (Inl (Exception ''first must be between 1 and 100''), [])
          else
            (let url_params = [(KStr ''after'', opt_str after),
                               (KStr ''ended_at'', opt_iso env ended_at),
                               (KStr ''extension_id'', opt_str extension_id),
                               (KStr ''first'', PInt first),
                               (KStr ''started_at'', opt_iso env started_at),
                               (KStr ''type'', opt_report env report_type)];
                 url = build_url env (TWITCH_API_BASE_URL env @ ''analytics/extensions'')
                         url_params True False
             in decode (\<lambda>data. make_fields_datetime env data [''started_at'', ''ended_at''])
                  (api_get_request (scope_name env) tr self url USER
                     (Some [ANALYTICS_READ_EXTENSION env]))))"

definition get_game_analytics ::
  "('s, 'r, 'e) imported \<Rightarrow> 'e transport \<Rightarrow> ('s, 'e) Twitch \<Rightarrow> string option \<Rightarrow> int
     \<Rightarrow> string option \<Rightarrow> datetime option \<Rightarrow> datetime option \<Rightarrow> 'r option
     \<Rightarrow> (error + 'e pyval) \<times> 'e request list" where
  "get_game_analytics env tr self after first game_id ended_at started_at report_type =
     (case (if ended_at \<noteq> None \<or> started_at \<noteq> None then
              (if ended_at = None \<or> started_at = None then
                 Some (Exception ''you must specify both ended_at and started_at'')
               else case dt_less (the ended_at) (the started_at) of
                      Inl e \<Rightarrow> Some e
                    | Inr earlier \<Rightarrow>
                        if earlier then Some (Exception ''ended_at must be after started_at'')
                        else None)
            else None) of
        Some e \<Rightarrow> (Inl e, [])
      | None \<Rightarrow>
          if first > 100 \<or> first < 1 then (Inl (Exception ''first must be between 1 and 100''), [])
          else
            (let url_params = [(KStr ''after'', opt_str after),
                               (KStr ''ended_at'', opt_iso env ended_at),
                               (KStr ''first'', PInt first),
                               (KStr ''game_id'', opt_str game_id),
                               (KStr ''started_at'', opt_iso env started_at),
                               (KStr ''type'', opt_report env report_type)];
                 url = build_url env (TWITCH_API_BASE_URL env @ ''analytics/games'')
                         url_params True False
             in decode (\<lambda>data. make_fields_datetime env data [''ended_at'', ''started_at''])
                  (api_get_request (scope_name env) tr self url USER
                     (Some [ANALYTICS_READ_GAMES env]))))"

text \<open>
  The dictionary literal \<open>url_param\<close> of \<open>get_extension_transactions\<close>, as written:
  its last key is the variable \<open>first\<close>, that is the integer given.
\<close>

definition extension_transactions_url_param ::
  "string \<Rightarrow> string option \<Rightarrow> string option \<Rightarrow> int \<Rightarrow> (pkey \<times> 'e pyval) list" where
  "extension_transactions_url_param extension_id transaction_id after first =
     [(KStr ''extension_id'', PStr extension_id),
      (KStr ''id'', opt_str transaction_id),
      (KStr ''after'', opt_str after),
      (KInt first, PInt first)]"

definition get_extension_transactions ::
  "('s, 'r, 'e) imported \<Rightarrow> 'e transport \<Rightarrow> ('s, 'e) Twitch \<Rightarrow> string \<Rightarrow> string option
     \<Rightarrow> string option \<Rightarrow> int \<Rightarrow> (error + 'e pyval) \<times> 'e request list" where
  "get_extension_transactions env tr self extension_id transaction_id after first =
     (if first > 100 \<or> first < 1 then (Inl (Exception ''first must be between 1 and 100''), [])
      else
        (let url_param = extension_transactions_url_param extension_id transaction_id after first;
             url = build_url env (TWITCH_API_BASE_URL env @ ''extensions/transactions'')
                     url_param True False
         in decode (\<lambda>data. make_fields_datetime env data [''timestamp''])
              (api_get_request (scope_name env) tr self url APP (Some []))))"

text \<open>
  \<open>list.count\<close> takes the value to count; called with no argument (\<open>None\<close> here) it
  raises \<open>TypeError\<close>.
\<close>

definition list_count :: "'a list \<Rightarrow> 'a option \<Rightarrow> error + int" where
  "list_count xs arg =
     (case arg of None \<Rightarrow> Inl TypeError | Some x \<Rightarrow> Inr (int (count_list xs x)))"

text \<open>
  The test \<open>code.count() > 20 or code.count() < 1\<close> of \<open>get_code_status\<close> and
  \<open>redeem_code\<close>: the exception it ends in, if any.
\<close>

definition code_count_check :: "string list \<Rightarrow> error option" where
  "code_count_check code =
     (case list_count code None of
        Inl e \<Rightarrow> Some e
      | Inr n \<Rightarrow>
          if n > 20 then Some (Exception ''only between 1 and 20 codes are allowed'')
          else case list_count code None of
                 Inl e \<Rightarrow> Some e
               | Inr m \<Rightarrow>
                   if m < 1 then Some (Exception ''only between 1 and 20 codes are allowed'')
                   else None)"

text \<open>
  What \<open>get_code_status\<close> and \<open>redeem_code\<close> do after the size test: the
  parameters, the URL, the request, and the normalisation of the field \<open>status\<close>.
\<close>

definition get_code_status_request ::
  "('s, 'r, 'e) imported \<Rightarrow> 'e transport \<Rightarrow> ('s, 'e) Twitch \<Rightarrow> string list \<Rightarrow> int
     \<Rightarrow> (error + 'e pyval) \<times> 'e request list" where
  "get_code_status_request env tr self code user_id =
     (let param = [(KStr ''code'', PList (map PStr code)), (KStr ''user_id'', PInt user_id)];
          url = build_url env (TWITCH_API_BASE_URL env @ ''entitlements/codes'') param False True
      in decode (\<lambda>data. fields_to_enum data [''status''] (CodeStatus env) (UNKNOWN_VALUE env))
           (api_get_request (scope_name env) tr self url APP (Some [])))"

definition redeem_code_request ::
  "('s, 'r, 'e) imported \<Rightarrow> 'e transport \<Rightarrow> ('s, 'e) Twitch \<Rightarrow> string list \<Rightarrow> int
     \<Rightarrow> (error + 'e pyval) \<times> 'e request list" where
  "redeem_code_request env tr self code user_id =
     (let param = [(KStr ''code'', PList (map PStr code)), (KStr ''user_id'', PInt user_id)];
          url = build_url env (TWITCH_API_BASE_URL env @ ''entitlements/code'') param False True
      in decode (\<lambda>data. fields_to_enum data [''status''] (CodeStatus env) (UNKNOWN_VALUE env))
           (api_post_request (scope_name env) tr self url APP (Some []) None))"

definition get_code_status ::
  "('s, 'r, 'e) imported \<Rightarrow> 'e transport \<Rightarrow> ('s, 'e) Twitch \<Rightarrow> string list \<Rightarrow> int
     \<Rightarrow> (error + 'e pyval) \<times> 'e request list" where
  "get_code_status env tr self code user_id =
     (case code_count_check code of
        Some e \<Rightarrow> (Inl e, [])
      | None \<Rightarrow> get_code_status_request env tr self code user_id)"

definition redeem_code ::
  "('s, 'r, 'e) imported \<Rightarrow> 'e transport \<Rightarrow> ('s, 'e) Twitch \<Rightarrow> string list \<Rightarrow> int
     \<Rightarrow> (error + 'e pyval) \<times> 'e request list" where
  "redeem_code env tr self code user_id =
     (case code_count_check code of
        Some e \<Rightarrow> (Inl e, [])
      | None \<Rightarrow> redeem_code_request env tr self code user_id)"

subsection \<open>Stand-ins for the concrete instances\<close>

text \<open>
  In the concrete instances below a scope, a report type and a member of
  \<open>CodeStatus\<close> are written as their names, the URL builder returns the base it is
  given, the token endpoint either refuses (401) or grants the token \<open>t0k3n\<close>, and
  \<open>answering data\<close> answers every request with the body \<open>data\<close>.
\<close>

definition sample_env :: "(string, string, string) imported" where
  "sample_env =
     \<lparr>build_url = (\<lambda>base params remove_none split_lists. base),
      build_scope = concat,
      make_fields_datetime = (\<lambda>data names. Inr data),
      TWITCH_API_BASE_URL = ''https://api.twitch.tv/helix/'',
      TWITCH_AUTH_BASE_URL = ''https://id.twitch.tv/'',
      scope_name = (\<lambda>s. s),
      ANALYTICS_READ_EXTENSION = ''ANALYTICS_READ_EXTENSION'',
      ANALYTICS_READ_GAMES = ''ANALYTICS_READ_GAMES'',
      report_value = PStr,
      CodeStatus = (\<lambda>s. if s \<in> set [''SUCCESSFULLY_REDEEMED'', ''ALREADY_CLAIMED'', ''EXPIRED'']
                          then Inr s else Inl ValueError),
      UNKNOWN_VALUE = ''UNKNOWN_VALUE'',
      isoformat = (\<lambda>d. ''2020-01-01T00:00:00'')\<rparr>"

definition refusing :: "string transport" where
  "refusing rq = Inr \<lparr>status_code = 401, body_text = ''invalid client'', json_body = None\<rparr>"

definition granting :: "string transport" where
  "granting rq =
     Inr \<lparr>status_code = 200, body_text = ''ok'',
          json_body = Some (PDict [(''access_token'', PStr ''t0k3n''),
                                   (''token_type'', PStr ''bearer'')])\<rparr>"

definition answering :: "string pyval \<Rightarrow> string transport" where
  "answering data rq = Inr \<lparr>status_code = 200, body_text = ''ok'', json_body = Some data\<rparr>"

definition sample_body :: "string pyval" where
  "sample_body =
     PDict [(''data'',
       PList [PDict [(''code'', PStr ''KUHXV-4GXYP-AKAKK''), (''status'', PStr ''ALREADY_CLAIMED'')],
              PDict [(''code'', PStr ''XZDDZ-5SIQR-RT5M3''),
                     (''status'', PStr ''totally-unknown-value'')]])]"

definition sample_normalised :: "string pyval" where
  "sample_normalised =
     PDict [(''data'',
       PList [PDict [(''code'', PStr ''KUHXV-4GXYP-AKAKK''), (''status'', PEnum ''ALREADY_CLAIMED'')],
              PDict [(''code'', PStr ''XZDDZ-5SIQR-RT5M3''),
                     (''status'', PEnum ''UNKNOWN_VALUE'')]])]"

definition sample_client :: "(string, string) Twitch" where
  "sample_client = init ''my-app'' ''my-secret''"

text \<open>The definitions a concrete instance unfolds.\<close>

lemmas sample_defs = sample_client_def sample_env_def init_def set_user_authentication_def
  authenticate_app_def generate_app_token_def app_token_request_def granting_def refusing_def

section \<open>Properties\<close>

subsection \<open>The scope check\<close>

lemma first_missing_None: "first_missing R G = None \<longleftrightarrow> set R \<subseteq> set G"
  by (induction R) auto

lemma first_missing_Some:
  "first_missing R G = Some s \<Longrightarrow>
     \<exists>pre post. R = pre @ s # post \<and> set pre \<subseteq> set G \<and> s \<notin> set G"
proof (induction R)
  case Nil
  then show ?case by simp
next
  case (Cons a R)
  show ?case
  proof (cases "a \<in> set G")
    case True
    with Cons.prems have "first_missing R G = Some s" by simp
    from Cons.IH[OF this] obtain pre post where
      "R = pre @ s # post" "set pre \<subseteq> set G" "s \<notin> set G" by blast
    with True have "a # R = (a # pre) @ s # post \<and> set (a # pre) \<subseteq> set G \<and> s \<notin> set G"
      by simp
    then show ?thesis by blast
  next
    case False
    with Cons.prems have "s = a" by simp
    with False have "a # R = [] @ s # R \<and> set [] \<subseteq> set G \<and> s \<notin> set G" by simp
    then show ?thesis by blast
  qed
qed

lemma first_missing_ex:
  "\<not> set R \<subseteq> set G \<Longrightarrow> \<exists>s. first_missing R G = Some s"
  using first_missing_None[of R G] by (cases "first_missing R G") auto

lemma header_app_absent:
  "\<not> has_app_auth self \<Longrightarrow>
     generate_header nm self APP R = Inl (UnauthorizedException ''Require app authentication!'')"
  by (simp add: generate_header_def)

lemma header_user_absent:
  "\<not> has_user_auth self \<Longrightarrow>
     generate_header nm self USER R = Inl (UnauthorizedException ''require user authentication!'')"
  by (simp add: generate_header_def)

lemma header_app_missing:
  assumes "has_app_auth self" and "first_missing R (app_auth_scope self) = Some s"
  shows "generate_header nm self APP R =
           Inl (MissingScopeException (''Require app auth scope '' @ nm s))"
  using assms by (simp add: generate_header_def)

lemma header_user_missing:
  assumes "has_user_auth self" and "first_missing R (user_auth_scope self) = Some s"
  shows "generate_header nm self USER R =
           Inl (MissingScopeException (''Require user auth scope '' @ nm s))"
  using assms by (simp add: generate_header_def)

lemma header_app_granted:
  assumes "has_app_auth self" and "set R \<subseteq> set (app_auth_scope self)"
  shows "generate_header nm self APP R =
           Inr [(''Client-ID'', Str (app_id self)),
                (''Authorization'', Bearer (app_auth_token self))]"
  using assms first_missing_None[of R "app_auth_scope self"] by (simp add: generate_header_def)

lemma header_user_granted:
  assumes "has_user_auth self" and "set R \<subseteq> set (user_auth_scope self)"
  shows "generate_header nm self USER R =
           Inr [(''Client-ID'', Str (app_id self)),
                (''Authorization'', Bearer (user_auth_token self))]"
  using assms first_missing_None[of R "user_auth_scope self"] by (simp add: generate_header_def)

text \<open>
  C1. In mode \<open>APP\<close>, \<open>__generate_header\<close> raises \<open>UnauthorizedException\<close> when the
  client has no app authentication; when some required scope is not among the granted
  ones it raises \<open>MissingScopeException\<close> naming the first such scope of the list (so
  for a single scope that is not granted, that scope); otherwise it returns the
  \<open>Client-ID\<close> header and \<open>Authorization: Bearer\<close> with the app token. Mode
  \<open>USER\<close> does the same on the user credential.
\<close>

theorem generate_header_app_user:
  "(\<not> has_app_auth self \<longrightarrow>
      generate_header nm self APP R = Inl (UnauthorizedException ''Require app authentication!''))
   \<and> (has_app_auth self \<and> \<not> set R \<subseteq> set (app_auth_scope self) \<longrightarrow>
      (\<exists>pre s post. R = pre @ s # post \<and> set pre \<subseteq> set (app_auth_scope self)
         \<and> s \<notin> set (app_auth_scope self)
         \<and> generate_header nm self APP R =
             Inl (MissingScopeException (''Require app auth scope '' @ nm s))))
   \<and> (has_app_auth self \<and> x \<notin> set (app_auth_scope self) \<longrightarrow>
      generate_header nm self APP [x] =
        Inl (MissingScopeException (''Require app auth scope '' @ nm x)))
   \<and> (has_app_auth self \<and> set R \<subseteq> set (app_auth_scope self) \<longrightarrow>
      generate_header nm self APP R =
        Inr [(''Client-ID'', Str (app_id self)),
             (''Authorization'', Bearer (app_auth_token self))])
   \<and> (\<not> has_user_auth self \<longrightarrow>
      generate_header nm self USER R = Inl (UnauthorizedException ''require user authentication!''))
   \<and> (has_user_auth self \<and> \<not> set R \<subseteq> set (user_auth_scope self) \<longrightarrow>
      (\<exists>pre s post. R = pre @ s # post \<and> set pre \<subseteq> set (user_auth_scope self)
         \<and> s \<notin> set (user_auth_scope self)
         \<and> generate_header nm self USER R =
             Inl (MissingScopeException (''Require user auth scope '' @ nm s))))
   \<and> (has_user_auth self \<and> x \<notin> set (user_auth_scope self) \<longrightarrow>
      generate_header nm self USER [x] =
        Inl (MissingScopeException (''Require user auth scope '' @ nm x)))
   \<and> (has_user_auth self \<and> set R \<subseteq> set (user_auth_scope self) \<longrightarrow>
      generate_header nm self USER R =
        Inr [(''Client-ID'', Str (app_id self)),
             (''Authorization'', Bearer (user_auth_token self))])"
proof -
  have a2: "\<exists>pre s post. R = pre @ s # post \<and> set pre \<subseteq> set (app_auth_scope self)
         \<and> s \<notin> set (app_auth_scope self)
         \<and> generate_header nm self APP R =
             Inl (MissingScopeException (''Require app auth scope '' @ nm s))"
    if h: "has_app_auth self" and n: "\<not> set R \<subseteq> set (app_auth_scope self)"
  proof -
    from first_missing_ex[OF n] obtain s where s: "first_missing R (app_auth_scope self) = Some s"
      by blast
    from first_missing_Some[OF s] obtain pre post where
      "R = pre @ s # post" "set pre \<subseteq> set (app_auth_scope self)" "s \<notin> set (app_auth_scope self)"
      by blast
    with header_app_missing[OF h s, of nm] show ?thesis by blast
  qed
  have a3: "generate_header nm self APP [x] =
        Inl (MissingScopeException (''Require app auth scope '' @ nm x))"
    if "has_app_auth self" "x \<notin> set (app_auth_scope self)"
    using that by (intro header_app_missing) simp_all
  have u2: "\<exists>pre s post. R = pre @ s # post \<and> set pre \<subseteq> set (user_auth_scope self)
         \<and> s \<notin> set (user_auth_scope self)
         \<and> generate_header nm self USER R =
             Inl (MissingScopeException (''Require user auth scope '' @ nm s))"
    if h: "has_user_auth self" and n: "\<not> set R \<subseteq> set (user_auth_scope self)"
  proof -
    from first_missing_ex[OF n] obtain s where s: "first_missing R (user_auth_scope self) = Some s"
      by blast
    from first_missing_Some[OF s] obtain pre post where
      "R = pre @ s # post" "set pre \<subseteq> set (user_auth_scope self)" "s \<notin> set (user_auth_scope self)"
      by blast
    with header_user_missing[OF h s, of nm] show ?thesis by blast
  qed
  have u3: "generate_header nm self USER [x] =
        Inl (MissingScopeException (''Require user auth scope '' @ nm x))"
    if "has_user_auth self" "x \<notin> set (user_auth_scope self)"
    using that by (intro header_user_missing) simp_all
  from a2 a3 u2 u3 header_app_absent[of self nm R] header_user_absent[of self nm R]
    header_app_granted[of self R nm] header_user_granted[of self R nm]
  show ?thesis by blast
qed

theorem generate_header_app_user_witness:
  "\<not> has_app_auth sample_client \<and> \<not> has_user_auth sample_client
   \<and> generate_header (scope_name sample_env) sample_client APP [''BITS_READ''] =
       Inl (UnauthorizedException ''Require app authentication!'')
   \<and> generate_header (scope_name sample_env) sample_client USER [''BITS_READ''] =
       Inl (UnauthorizedException ''require user authentication!'')
   \<and> has_user_auth (set_user_authentication sample_client ''u5er'' [''CLIPS_EDIT''])
   \<and> user_auth_scope (set_user_authentication sample_client ''u5er'' [''CLIPS_EDIT'']) =
       [''CLIPS_EDIT'']
   \<and> ''BITS_READ'' \<notin> set [''CLIPS_EDIT'']
   \<and> \<not> set [''CLIPS_EDIT'', ''BITS_READ'', ''MODERATION_READ''] \<subseteq> set [''CLIPS_EDIT'']
   \<and> set [''CLIPS_EDIT''] \<subseteq> set [''CLIPS_EDIT'']
   \<and> generate_header (scope_name sample_env)
        (set_user_authentication sample_client ''u5er'' [''CLIPS_EDIT'']) USER
        [''CLIPS_EDIT'', ''BITS_READ'', ''MODERATION_READ''] =
       Inl (MissingScopeException ''Require user auth scope BITS_READ'')
   \<and> generate_header (scope_name sample_env)
        (set_user_authentication sample_client ''u5er'' [''CLIPS_EDIT'']) USER [''BITS_READ''] =
       Inl (MissingScopeException ''Require user auth scope BITS_READ'')
   \<and> generate_header (scope_name sample_env)
        (set_user_authentication sample_client ''u5er'' [''CLIPS_EDIT'']) USER [''CLIPS_EDIT''] =
       Inr [(''Client-ID'', Str ''my-app''), (''Authorization'', Bearer (PStr ''u5er''))]
   \<and> has_app_auth (fst (snd (authenticate_app sample_env granting sample_client [''CLIPS_EDIT''])))
   \<and> app_auth_scope (fst (snd (authenticate_app sample_env granting sample_client [''CLIPS_EDIT''])))
       = [''CLIPS_EDIT'']
   \<and> generate_header (scope_name sample_env)
        (fst (snd (authenticate_app sample_env granting sample_client [''CLIPS_EDIT''])))
        APP [''CLIPS_EDIT'', ''BITS_READ'', ''MODERATION_READ''] =
       Inl (MissingScopeException ''Require app auth scope BITS_READ'')
   \<and> generate_header (scope_name sample_env)
        (fst (snd (authenticate_app sample_env granting sample_client [''CLIPS_EDIT''])))
        APP [''BITS_READ''] =
       Inl (MissingScopeException ''Require app auth scope BITS_READ'')
   \<and> generate_header (scope_name sample_env)
        (fst (snd (authenticate_app sample_env granting sample_client [''CLIPS_EDIT''])))
        APP [''CLIPS_EDIT''] =
       Inr [(''Client-ID'', Str ''my-app''), (''Authorization'', Bearer (PStr ''t0k3n''))]"
  using generate_header_app_user[where self = sample_client and nm = "scope_name sample_env"
      and R = "[''BITS_READ'']" and x = "''BITS_READ''"]
    generate_header_app_user[where
      self = "set_user_authentication sample_client ''u5er'' [''CLIPS_EDIT'']"
      and nm = "scope_name sample_env"
      and R = "[''CLIPS_EDIT'', ''BITS_READ'', ''MODERATION_READ'']" and x = "''BITS_READ''"]
    generate_header_app_user[where
      self = "set_user_authentication sample_client ''u5er'' [''CLIPS_EDIT'']"
      and nm = "scope_name sample_env" and R = "[''CLIPS_EDIT'']" and x = "''BITS_READ''"]
    generate_header_app_user[where
      self = "fst (snd (authenticate_app sample_env granting sample_client [''CLIPS_EDIT'']))"
      and nm = "scope_name sample_env"
      and R = "[''CLIPS_EDIT'', ''BITS_READ'', ''MODERATION_READ'']" and x = "''BITS_READ''"]
    generate_header_app_user[where
      self = "fst (snd (authenticate_app sample_env granting sample_client [''CLIPS_EDIT'']))"
      and nm = "scope_name sample_env" and R = "[''CLIPS_EDIT'']" and x = "''BITS_READ''"]
  by (simp add: sample_defs generate_header_def)

subsection \<open>Headers and granted scopes\<close>

lemma header_app_success:
  assumes "generate_header nm self APP R = Inr h"
  shows "has_app_auth self \<and> set R \<subseteq> set (app_auth_scope self)"
  using assms first_missing_None[of R "app_auth_scope self"]
  by (auto simp: generate_header_def split: if_splits option.splits)

lemma header_user_success:
  assumes "generate_header nm self USER R = Inr h"
  shows "has_user_auth self \<and> set R \<subseteq> set (user_auth_scope self)"
  using assms first_missing_None[of R "user_auth_scope self"]
  by (auto simp: generate_header_def split: if_splits option.splits)

text \<open>
  C2 (amended). In mode \<open>APP\<close> and in mode \<open>USER\<close>, whenever \<open>__generate_header\<close>
  returns, the credential of that mode is present, its granted scopes include every
  required scope, and the \<open>Authorization\<close> header is built from its token.
\<close>

theorem generate_header_scopes_cover:
  "(generate_header nm self APP R = Inr h \<longrightarrow>
      has_app_auth self \<and> set R \<subseteq> set (app_auth_scope self)
      \<and> map_of h ''Authorization'' = Some (Bearer (app_auth_token self)))
   \<and> (generate_header nm self USER R = Inr h \<longrightarrow>
      has_user_auth self \<and> set R \<subseteq> set (user_auth_scope self)
      \<and> map_of h ''Authorization'' = Some (Bearer (user_auth_token self)))"
proof (intro conjI impI)
  assume a: "generate_header nm self APP R = Inr h"
  from header_app_success[OF a] show "has_app_auth self" "set R \<subseteq> set (app_auth_scope self)"
    by simp_all
  with a header_app_granted[of self R nm]
  show "map_of h ''Authorization'' = Some (Bearer (app_auth_token self))" by auto
next
  assume u: "generate_header nm self USER R = Inr h"
  from header_user_success[OF u] show "has_user_auth self" "set R \<subseteq> set (user_auth_scope self)"
    by simp_all
  with u header_user_granted[of self R nm]
  show "map_of h ''Authorization'' = Some (Bearer (user_auth_token self))" by auto
qed

theorem generate_header_scopes_cover_witness:
  "generate_header (scope_name sample_env)
     (set_user_authentication sample_client ''u5er'' [''CLIPS_EDIT'', ''BITS_READ'']) USER [''BITS_READ''] =
     Inr [(''Client-ID'', Str ''my-app''), (''Authorization'', Bearer (PStr ''u5er''))]
   \<and> set [''BITS_READ''] \<subseteq>
       set (user_auth_scope (set_user_authentication sample_client ''u5er'' [''CLIPS_EDIT'', ''BITS_READ'']))
   \<and> generate_header (scope_name sample_env)
        (fst (snd (authenticate_app sample_env granting sample_client [''CLIPS_EDIT''])))
        APP [''CLIPS_EDIT''] =
       Inr [(''Client-ID'', Str ''my-app''), (''Authorization'', Bearer (PStr ''t0k3n''))]
   \<and> set [''CLIPS_EDIT''] \<subseteq>
       set (app_auth_scope (fst (snd (authenticate_app sample_env granting sample_client [''CLIPS_EDIT'']))))"
  using generate_header_scopes_cover[of "scope_name sample_env"
      "set_user_authentication sample_client ''u5er'' [''CLIPS_EDIT'', ''BITS_READ'']" "[''BITS_READ'']"
      "[(''Client-ID'', Str ''my-app''), (''Authorization'', Bearer (PStr ''u5er''))]"]
    generate_header_scopes_cover[of "scope_name sample_env"
      "fst (snd (authenticate_app sample_env granting sample_client [''CLIPS_EDIT'']))" "[''CLIPS_EDIT'']"
      "[(''Client-ID'', Str ''my-app''), (''Authorization'', Bearer (PStr ''t0k3n''))]"]
  by (simp add: sample_defs generate_header_def)

text \<open>
  The claim as stated fails in mode \<open>NONE\<close>: a client whose user credential was
  granted no scope gets an \<open>Authorization\<close> header from that credential although a
  scope is required.
\<close>

theorem generate_header_none_unchecked_counterexample:
  "generate_header (scope_name sample_env)
     (set_user_authentication sample_client ''u5er'' []) NONE [''BITS_READ''] =
     Inr [(''Client-ID'', Str ''my-app''), (''Authorization'', Bearer (PStr ''u5er''))]
   \<and> \<not> set [''BITS_READ''] \<subseteq> set (user_auth_scope (set_user_authentication sample_client ''u5er'' []))"
  by (simp add: sample_defs generate_header_def)

text \<open>
  C3 (amended). In mode \<open>NONE\<close>, \<open>__generate_header\<close> always returns, whatever scopes
  are required, with the \<open>Client-ID\<close> header. It has no \<open>Authorization\<close> header
  exactly when neither credential is present; otherwise \<open>Authorization\<close> is built from
  the user token when the user credential is present, else from the app token.
\<close>

theorem generate_header_none:
  "\<exists>h. generate_header nm self NONE R = Inr h
     \<and> map_of h ''Client-ID'' = Some (Str (app_id self))
     \<and> map_of h ''Authorization'' =
         (if has_user_auth self then Some (Bearer (user_auth_token self))
          else if has_app_auth self then Some (Bearer (app_auth_token self))
          else None)"
  by (simp add: generate_header_def)

theorem generate_header_none_witness:
  "generate_header (scope_name sample_env) sample_client NONE [''BITS_READ''] =
     Inr [(''Client-ID'', Str ''my-app'')]
   \<and> map_of [(''Client-ID'', Str ''my-app'') :: string \<times> string header_value] ''Authorization'' = None"
  using generate_header_none[of "scope_name sample_env" sample_client "[''BITS_READ'']"]
  by (simp add: sample_defs generate_header_def)

text \<open>
  The claim as stated fails once a credential is present: with a user credential and no
  required scope, mode \<open>NONE\<close> returns an \<open>Authorization\<close> header.
\<close>

theorem generate_header_none_authorized_counterexample:
  "generate_header (scope_name sample_env)
     (set_user_authentication sample_client ''u5er'' [''BITS_READ'']) NONE [] =
     Inr [(''Client-ID'', Str ''my-app''), (''Authorization'', Bearer (PStr ''u5er''))]
   \<and> map_of [(''Client-ID'', Str ''my-app''), (''Authorization'', Bearer (PStr ''u5er'' :: string pyval))]
        ''Authorization'' \<noteq> None"
  by (simp add: sample_defs generate_header_def)

subsection \<open>Checks before the request\<close>

text \<open>
  C6. When exactly one of \<open>ended_at\<close> and \<open>started_at\<close> is given,
  \<open>get_extension_analytics\<close> and \<open>get_game_analytics\<close> raise the exception whose
  message states that both must be specified, and send no request.
\<close>

theorem analytics_date_pair:
  assumes "(ended_at = None) \<noteq> (started_at = None)"
  shows "get_extension_analytics env tr self after extension_id first ended_at started_at rt =
           (Inl (Exception ''you must specify both ended_at and started_at''), [])
         \<and> get_game_analytics env tr self after first game_id ended_at started_at rt =
           (Inl (Exception ''you must specify both ended_at and started_at''), [])"
  using assms by (auto simp: get_extension_analytics_def get_game_analytics_def)

theorem analytics_date_pair_witness:
  "(Some \<lparr>instant = 1577836800, aware = False\<rparr> = None) \<noteq> ((None :: datetime option) = None)
   \<and> get_extension_analytics sample_env granting
        (set_user_authentication sample_client ''u5er'' [''ANALYTICS_READ_EXTENSION''])
        None None 20 (Some \<lparr>instant = 1577836800, aware = False\<rparr>) None None =
        (Inl (Exception ''you must specify both ended_at and started_at''), [])
   \<and> get_game_analytics sample_env granting
        (set_user_authentication sample_client ''u5er'' [''ANALYTICS_READ_EXTENSION''])
        None 20 None (Some \<lparr>instant = 1577836800, aware = False\<rparr>) None None =
        (Inl (Exception ''you must specify both ended_at and started_at''), [])
   \<and> ((None :: datetime option) = None) \<noteq> (Some \<lparr>instant = 1577836800, aware = True\<rparr> = None)
   \<and> get_extension_analytics sample_env granting
        (set_user_authentication sample_client ''u5er'' [''ANALYTICS_READ_EXTENSION''])
        None (Some ''ext'') 150 None (Some \<lparr>instant = 1577836800, aware = True\<rparr>) None =
        (Inl (Exception ''you must specify both ended_at and started_at''), [])
   \<and> get_game_analytics sample_env granting
        (set_user_authentication sample_client ''u5er'' [''ANALYTICS_READ_EXTENSION''])
        None 150 (Some ''game'') None (Some \<lparr>instant = 1577836800, aware = True\<rparr>) None =
        (Inl (Exception ''you must specify both ended_at and started_at''), [])"
  using analytics_date_pair[where ended_at = "Some \<lparr>instant = 1577836800, aware = False\<rparr>"
      and started_at = None and env = sample_env and tr = granting
      and self = "set_user_authentication sample_client ''u5er'' [''ANALYTICS_READ_EXTENSION'']"
      and after = None and extension_id = None and first = 20 and rt = None and game_id = None]
    analytics_date_pair[where started_at = "Some \<lparr>instant = 1577836800, aware = True\<rparr>"
      and ended_at = None and env = sample_env and tr = granting
      and self = "set_user_authentication sample_client ''u5er'' [''ANALYTICS_READ_EXTENSION'']"
      and after = None and extension_id = "Some ''ext''" and first = 150 and rt = None
      and game_id = "Some ''game''"]
  by simp

text \<open>
  C8. In the parameter dictionary of \<open>get_extension_transactions\<close> the count is
  not under the key \<open>'first'\<close>: the dictionary has no such key, and the count is
  under the integer itself.
\<close>

theorem extension_transactions_first_key:
  "map_of (extension_transactions_url_param extension_id transaction_id after first) (KStr ''first'')
     = None
   \<and> map_of (extension_transactions_url_param extension_id transaction_id after first) (KInt first)
     = Some (PInt first)"
  by (simp add: extension_transactions_url_param_def)

text \<open>
  C9. The size test of \<open>get_code_status\<close> and \<open>redeem_code\<close> raises
  \<open>TypeError\<close> for every list of codes, whatever its length, and no request is built.
\<close>

theorem code_count_raises:
  "get_code_status env tr self code user_id = (Inl TypeError, [])
   \<and> redeem_code env tr self code user_id = (Inl TypeError, [])"
  by (simp add: get_code_status_def redeem_code_def code_count_check_def list_count_def)

text \<open>
  C10. Every call of \<open>get_webhook_subscriptions\<close> raises \<open>TypeError\<close> for the
  missing argument \<open>required_scope\<close> of the GET helper, and sends no request.
\<close>

theorem webhook_subscriptions_raises:
  "get_webhook_subscriptions env tr self first after = (Inl TypeError, [])"
  by (simp add: get_webhook_subscriptions_def api_get_request_def decode_def)

subsection \<open>Acquiring the app token\<close>

lemma authenticate_app_refused:
  assumes "tr (app_token_request env (self\<lparr>app_auth_scope := scope\<rparr>)) = Inr result"
    and "status_code result \<noteq> 200"
  shows "authenticate_app env tr self scope =
           (Some (AuthenticationFailed (status_code result) (body_text result)),
            self\<lparr>app_auth_scope := scope\<rparr>,
            [app_token_request env (self\<lparr>app_auth_scope := scope\<rparr>)])"
  using assms by (simp add: authenticate_app_def generate_app_token_def Let_def)

lemma authenticate_app_granted:
  assumes "tr (app_token_request env (self\<lparr>app_auth_scope := scope\<rparr>)) = Inr result"
    and "status_code result = 200"
    and "json_body result = Some (PDict data)"
    and "map_of data ''access_token'' = Some token"
  shows "authenticate_app env tr self scope =
           (None, self\<lparr>app_auth_scope := scope, app_auth_token := token, has_app_auth := True\<rparr>,
            [app_token_request env (self\<lparr>app_auth_scope := scope\<rparr>)])"
  using assms by (simp add: authenticate_app_def generate_app_token_def Let_def)

text \<open>
  C4 (amended). When the token request is answered with a status other than 200,
  \<open>authenticate_app\<close> raises the exception that carries the status and the body, has
  sent only that request, and leaves the token and the flag \<open>has_app_auth\<close> of the
  app credential as they were: a credential that was not present is not present
  afterwards. When the answer is 200 with an \<open>access_token\<close>, the client returned has
  the token stored and the flag set.
\<close>

theorem authenticate_app_outcome:
  "(tr (app_token_request env (self\<lparr>app_auth_scope := scope\<rparr>)) = Inr result
      \<and> status_code result \<noteq> 200 \<longrightarrow>
      (\<exists>self'. authenticate_app env tr self scope =
           (Some (AuthenticationFailed (status_code result) (body_text result)), self',
            [app_token_request env (self\<lparr>app_auth_scope := scope\<rparr>)])
         \<and> has_app_auth self' = has_app_auth self
         \<and> app_auth_token self' = app_auth_token self
         \<and> (\<not> has_app_auth self \<longrightarrow> \<not> has_app_auth self')))
   \<and> (tr (app_token_request env (self\<lparr>app_auth_scope := scope\<rparr>)) = Inr result
      \<and> status_code result = 200 \<and> json_body result = Some (PDict data)
      \<and> map_of data ''access_token'' = Some token \<longrightarrow>
      (\<exists>self'. authenticate_app env tr self scope =
           (None, self', [app_token_request env (self\<lparr>app_auth_scope := scope\<rparr>)])
         \<and> has_app_auth self' \<and> app_auth_token self' = token \<and> app_auth_scope self' = scope))"
proof (intro conjI impI)
  assume "tr (app_token_request env (self\<lparr>app_auth_scope := scope\<rparr>)) = Inr result
      \<and> status_code result \<noteq> 200"
  then have "authenticate_app env tr self scope =
           (Some (AuthenticationFailed (status_code result) (body_text result)),
            self\<lparr>app_auth_scope := scope\<rparr>,
            [app_token_request env (self\<lparr>app_auth_scope := scope\<rparr>)])"
    using authenticate_app_refused by blast
  then show "\<exists>self'. authenticate_app env tr self scope =
           (Some (AuthenticationFailed (status_code result) (body_text result)), self',
            [app_token_request env (self\<lparr>app_auth_scope := scope\<rparr>)])
         \<and> has_app_auth self' = has_app_auth self
         \<and> app_auth_token self' = app_auth_token self
         \<and> (\<not> has_app_auth self \<longrightarrow> \<not> has_app_auth self')"
    by simp
next
  assume "tr (app_token_request env (self\<lparr>app_auth_scope := scope\<rparr>)) = Inr result
      \<and> status_code result = 200 \<and> json_body result = Some (PDict data)
      \<and> map_of data ''access_token'' = Some token"
  then have "authenticate_app env tr self scope =
           (None, self\<lparr>app_auth_scope := scope, app_auth_token := token, has_app_auth := True\<rparr>,
            [app_token_request env (self\<lparr>app_auth_scope := scope\<rparr>)])"
    using authenticate_app_granted by blast
  then show "\<exists>self'. authenticate_app env tr self scope =
           (None, self', [app_token_request env (self\<lparr>app_auth_scope := scope\<rparr>)])
         \<and> has_app_auth self' \<and> app_auth_token self' = token \<and> app_auth_scope self' = scope"
    by simp
qed

theorem authenticate_app_outcome_witness:
  "refusing (app_token_request sample_env (sample_client\<lparr>app_auth_scope := [''BITS_READ'']\<rparr>)) =
     Inr \<lparr>status_code = 401, body_text = ''invalid client'', json_body = None\<rparr>
   \<and> fst (authenticate_app sample_env refusing sample_client [''BITS_READ'']) =
       Some (AuthenticationFailed 401 ''invalid client'')
   \<and> \<not> has_app_auth (fst (snd (authenticate_app sample_env refusing sample_client [''BITS_READ''])))
   \<and> app_auth_token (fst (snd (authenticate_app sample_env refusing sample_client [''BITS_READ''])))
       = PNone
   \<and> snd (snd (authenticate_app sample_env refusing sample_client [''BITS_READ''])) =
       [\<lparr>req_method = POST, req_url = ''https://id.twitch.tv/oauth2/token'', req_headers = None,
         req_json = None\<rparr>]
   \<and> granting (app_token_request sample_env (sample_client\<lparr>app_auth_scope := [''BITS_READ'']\<rparr>)) =
     Inr \<lparr>status_code = 200, body_text = ''ok'',
          json_body = Some (PDict [(''access_token'', PStr ''t0k3n''),
                                   (''token_type'', PStr ''bearer'')])\<rparr>
   \<and> fst (authenticate_app sample_env granting sample_client [''BITS_READ'']) = None
   \<and> has_app_auth (fst (snd (authenticate_app sample_env granting sample_client [''BITS_READ''])))
   \<and> app_auth_token (fst (snd (authenticate_app sample_env granting sample_client [''BITS_READ''])))
       = PStr ''t0k3n''"
  using authenticate_app_outcome[where tr = refusing and env = sample_env and self = sample_client
      and scope = "[''BITS_READ'']"
      and result = "\<lparr>status_code = 401, body_text = ''invalid client'', json_body = None\<rparr>"]
    authenticate_app_outcome[where tr = granting and env = sample_env and self = sample_client
      and scope = "[''BITS_READ'']"
      and result = "\<lparr>status_code = 200, body_text = ''ok'',
          json_body = Some (PDict [(''access_token'', PStr ''t0k3n''),
                                   (''token_type'', PStr ''bearer'')])\<rparr>"
      and data = "[(''access_token'', PStr ''t0k3n''), (''token_type'', PStr ''bearer'')]"
      and token = "PStr ''t0k3n''"]
  by (simp add: sample_defs)

text \<open>
  The claim as stated fails for a client that is already authenticated: the refused
  request leaves its app credential marked present.
\<close>

theorem authenticate_app_refused_counterexample:
  "fst (authenticate_app sample_env refusing
          (fst (snd (authenticate_app sample_env granting sample_client [''BITS_READ''])))
          [''BITS_READ'']) = Some (AuthenticationFailed 401 ''invalid client'')
   \<and> has_app_auth (fst (snd (authenticate_app sample_env refusing
          (fst (snd (authenticate_app sample_env granting sample_client [''BITS_READ''])))
          [''BITS_READ''])))"
  by (simp add: sample_defs)


subsection \<open>A refused re-authentication\<close>

text \<open>
  C5. A credential is not always replaced as a whole. On a client authenticated with
  scope \<open>BITS_READ\<close> and token \<open>t0k3n\<close>, an \<open>authenticate_app\<close> for
  \<open>CLIPS_EDIT\<close> whose token request is refused raises, and leaves the new scope list
  next to the old token and the flag still set; the header builder then accepts
  \<open>CLIPS_EDIT\<close> with the old token.
\<close>

theorem authenticate_app_partial_update:
  "fst (snd (authenticate_app sample_env refusing
          (fst (snd (authenticate_app sample_env granting sample_client [''BITS_READ''])))
          [''CLIPS_EDIT''])) =
     \<lparr>app_id = ''my-app'', app_secret = ''my-secret'',
      app_auth_token = PStr ''t0k3n'', app_auth_scope = [''CLIPS_EDIT''], has_app_auth = True,
      user_auth_token = PNone, user_auth_scope = [], has_user_auth = False\<rparr>
   \<and> fst (snd (authenticate_app sample_env granting sample_client [''BITS_READ''])) =
     \<lparr>app_id = ''my-app'', app_secret = ''my-secret'',
      app_auth_token = PStr ''t0k3n'', app_auth_scope = [''BITS_READ''], has_app_auth = True,
      user_auth_token = PNone, user_auth_scope = [], has_user_auth = False\<rparr>
   \<and> generate_header (scope_name sample_env)
        (fst (snd (authenticate_app sample_env refusing
          (fst (snd (authenticate_app sample_env granting sample_client [''BITS_READ''])))
          [''CLIPS_EDIT''])))
        APP [''CLIPS_EDIT''] =
       Inr [(''Client-ID'', Str ''my-app''), (''Authorization'', Bearer (PStr ''t0k3n''))]"
  by (simp add: sample_defs generate_header_def)

subsection \<open>Enumeration fields\<close>

lemma all_ok_map_Inr: "all_ok (map Inr vs) = Inr vs"
  by (induction vs) simp_all

lemma all_ok_Inr: "all_ok rs = Inr vs \<longleftrightarrow> rs = map Inr vs"
proof
  assume "all_ok rs = Inr vs"
  then show "rs = map Inr vs"
    by (induction rs arbitrary: vs) (auto split: sum.splits)
next
  assume "rs = map Inr vs"
  then show "all_ok rs = Inr vs" by (simp add: all_ok_map_Inr)
qed

lemma fields_to_enum_PDict_eq:
  "fields_to_enum (PDict items) field_names enum fallback =
     (case all_ok (map (\<lambda>(k, v).
             case item_result field_names enum fallback k v of
               Inl e \<Rightarrow> Inl e
             | Inr v' \<Rightarrow> Inr (k, v')) items) of
        Inl e \<Rightarrow> Inl e
      | Inr items' \<Rightarrow> Inr (PDict items'))"
  unfolding item_result_def by (simp only: fields_to_enum.simps)


lemma map_Inr_exists:
  "(\<And>x. x \<in> set xs \<Longrightarrow> \<exists>y. f x = Inr y) \<Longrightarrow> \<exists>ys. map f xs = map Inr ys"
proof (induction xs)
  case Nil
  then show ?case by simp
next
  case (Cons a xs)
  from Cons.prems[of a] obtain y where y: "f a = Inr y" by auto
  have "\<exists>ys. map f xs = map Inr ys" by (rule Cons.IH) (simp add: Cons.prems)
  then obtain ys where "map f xs = map Inr ys" by blast
  with y have "map f (a # xs) = map Inr (y # ys)" by simp
  then show ?case by blast
qed

lemma map_of_items_Inr:
  assumes "map (\<lambda>(k, v). case h k v of Inl e \<Rightarrow> Inl e | Inr v' \<Rightarrow> Inr (k, v')) items
             = map Inr items'"
  shows "(map_of items k = None \<longrightarrow> map_of items' k = None)
         \<and> (\<forall>v. map_of items k = Some v \<longrightarrow> (\<exists>v'. h k v = Inr v' \<and> map_of items' k = Some v'))"
  using assms
proof (induction items arbitrary: items')
  case Nil
  then show ?case by simp
next
  case (Cons a items)
  obtain a1 a2 where a: "a = (a1, a2)" by (cases a)
  from Cons.prems obtain b rest where i: "items' = b # rest" by (cases items') auto
  with Cons.prems a have hd: "(case h a1 a2 of Inl e \<Rightarrow> Inl e | Inr v' \<Rightarrow> Inr (a1, v')) = Inr b"
    and tl: "map (\<lambda>(k, v). case h k v of Inl e \<Rightarrow> Inl e | Inr v' \<Rightarrow> Inr (k, v')) items
               = map Inr rest"
    by simp_all
  from hd obtain v' where v': "h a1 a2 = Inr v'" "b = (a1, v')" by (auto split: sum.splits)
  from Cons.IH[OF tl] a i v' show ?case by auto
qed

lemma fields_to_enum_leaf:
  "(\<forall>xs. v \<noteq> PList xs) \<Longrightarrow> (\<forall>items. v \<noteq> PDict items)
     \<Longrightarrow> fields_to_enum v field_names enum fallback = Inr v"
  by (cases v) simp_all

lemma item_result_PStr:
  "item_result field_names enum fallback k (PStr s) =
     Inr (if k \<in> set field_names
          then PEnum (case enum s of Inr c \<Rightarrow> c | Inl e \<Rightarrow> fallback)
          else PStr s)"
  by (simp add: item_result_def)

lemma item_result_other:
  "(\<forall>s. v \<noteq> PStr s) \<Longrightarrow>
     item_result field_names enum fallback k v = fields_to_enum v field_names enum fallback"
  by (cases v) (simp_all add: item_result_def)

lemma fields_to_enum_PDict:
  assumes "fields_to_enum (PDict items) field_names enum fallback = Inr r"
  shows "\<exists>items'. r = PDict items'
          \<and> (map_of items k = None \<longrightarrow> map_of items' k = None)
          \<and> (\<forall>v. map_of items k = Some v \<longrightarrow>
                (\<exists>v'. item_result field_names enum fallback k v = Inr v'
                   \<and> map_of items' k = Some v'))"
proof (cases "all_ok (map (\<lambda>(k, v).
             case item_result field_names enum fallback k v of
               Inl e \<Rightarrow> Inl e
             | Inr v' \<Rightarrow> Inr (k, v')) items)")
  case (Inl e)
  with assms show ?thesis by (simp only: fields_to_enum_PDict_eq sum.case sum.distinct)
next
  case (Inr items')
  with assms have r: "r = PDict items'"
    by (simp only: fields_to_enum_PDict_eq sum.case sum.inject)
  from Inr have m: "map (\<lambda>(k, v).
             case item_result field_names enum fallback k v of
               Inl e \<Rightarrow> Inl e
             | Inr v' \<Rightarrow> Inr (k, v')) items = map Inr items'"
    by (simp only: all_ok_Inr)
  note M = map_of_items_Inr[of "item_result field_names enum fallback" items items' k, OF m]
  from M r show ?thesis by (intro exI[of _ items']) simp
qed

lemma fields_to_enum_PList:
  assumes "fields_to_enum (PList xs) field_names enum fallback = Inr r"
  shows "\<exists>ys. r = PList ys \<and> length ys = length xs
          \<and> (\<forall>i<length xs. fields_to_enum (xs ! i) field_names enum fallback = Inr (ys ! i))"
proof (cases "all_ok (map (\<lambda>x. fields_to_enum x field_names enum fallback) xs)")
  case (Inl e)
  with assms show ?thesis by simp
next
  case (Inr ys)
  with assms have r: "r = PList ys" by simp
  from Inr have m: "map (\<lambda>x. fields_to_enum x field_names enum fallback) xs = map Inr ys"
    by (simp only: all_ok_Inr)
  then have l: "length ys = length xs" by (metis length_map)
  have "fields_to_enum (xs ! i) field_names enum fallback = Inr (ys ! i)" if "i < length xs" for i
  proof -
    from that have "fields_to_enum (xs ! i) field_names enum fallback =
        map (\<lambda>x. fields_to_enum x field_names enum fallback) xs ! i" by simp
    also have "\<dots> = map Inr ys ! i" by (simp only: m)
    also from that l have "\<dots> = Inr (ys ! i)" by simp
    finally show ?thesis .
  qed
  with r l show ?thesis by (intro exI[of _ ys]) simp
qed

lemma fields_to_enum_returns: "\<exists>r. fields_to_enum body field_names enum fallback = Inr r"
proof (induction body)
  case (PList xs)
  let ?f = "\<lambda>x. fields_to_enum x field_names enum fallback"
  have "\<exists>y. ?f x = Inr y" if "x \<in> set xs" for x
    using PList.IH[OF that] .
  then have "\<exists>ys. map ?f xs = map Inr ys"
    using map_Inr_exists[of xs ?f] by simp
  then obtain ys where "map ?f xs = map Inr ys" ..
  then have "all_ok (map ?f xs) = Inr ys"
    by (simp only: all_ok_Inr)
  then have "fields_to_enum (PList xs) field_names enum fallback = Inr (PList ys)"
    by simp
  then show ?case ..
next
  case (PDict items)
  let ?g = "\<lambda>(k, v). case item_result field_names enum fallback k v of
              Inl e \<Rightarrow> Inl e
            | Inr v' \<Rightarrow> Inr (k, v')"
  have "\<exists>y. ?g x = Inr y" if "x \<in> set items" for x
  proof -
    obtain k v where x: "x = (k, v)" by (cases x)
    have "\<exists>v'. item_result field_names enum fallback k v = Inr v'"
    proof (cases "\<exists>s. v = PStr s")
      case True
      then obtain s where "v = PStr s" ..
      then show ?thesis by (simp add: item_result_PStr)
    next
      case False
      from that x have "\<exists>r. fields_to_enum v field_names enum fallback = Inr r"
        using PDict.IH[of x v] by simp
      with False show ?thesis by (simp add: item_result_other)
    qed
    then obtain v' where "item_result field_names enum fallback k v = Inr v'" ..
    with x have "?g x = Inr (k, v')" by simp
    then show ?thesis ..
  qed
  then have "\<exists>ys. map ?g items = map Inr ys"
    using map_Inr_exists[of items ?g] by simp
  then obtain ys where "map ?g items = map Inr ys" ..
  then have "all_ok (map ?g items) = Inr ys"
    by (simp only: all_ok_Inr)
  then have "fields_to_enum (PDict items) field_names enum fallback = Inr (PDict ys)"
    by (simp only: fields_to_enum_PDict_eq sum.case)
  then show ?case ..
qed simp_all

lemma value_at_leaf:
  "(\<forall>xs. v \<noteq> PList xs) \<Longrightarrow> (\<forall>items. v \<noteq> PDict items) \<Longrightarrow> value_at v (x # q) = None"
  by (cases v; cases x) simp_all

lemma value_at_fields_to_enum:
  "fields_to_enum body field_names enum fallback = Inr r \<Longrightarrow>
     (value_at body q = None \<longrightarrow> value_at r q = None)
     \<and> (\<forall>s. value_at body q = Some (PStr s) \<longrightarrow>
           value_at r q =
             Some (if q \<noteq> [] \<and> (\<exists>k. last q = Key k \<and> k \<in> set field_names)
                   then PEnum (case enum s of Inr c \<Rightarrow> c | Inl e \<Rightarrow> fallback)
                   else PStr s))
     \<and> (\<forall>v. value_at body q = Some v \<longrightarrow> (\<forall>s. v \<noteq> PStr s) \<longrightarrow>
           (\<exists>v'. value_at r q = Some v' \<and> fields_to_enum v field_names enum fallback = Inr v'))"
proof (induction q arbitrary: body r)
  case Nil
  have "r = PStr s" if "body = PStr s" for s
    using that Nil by simp
  with Nil show ?case by auto
next
  case (Cons x q)
  note fte = Cons.prems
  consider (leaf) "\<forall>xs. body \<noteq> PList xs" "\<forall>items. body \<noteq> PDict items"
    | (list) xs where "body = PList xs"
    | (dict) items where "body = PDict items"
    by (cases body) auto
  then show ?case
  proof cases
    case leaf
    with fte fields_to_enum_leaf[of body field_names enum fallback] have "r = body" by simp
    with leaf show ?thesis by (simp add: value_at_leaf)
  next
    case (list xs)
    from fields_to_enum_PList[of xs field_names enum fallback r] fte list
    obtain ys where ys: "r = PList ys" "length ys = length xs"
      "\<forall>i<length xs. fields_to_enum (xs ! i) field_names enum fallback = Inr (ys ! i)"
      by auto
    show ?thesis
    proof (cases x)
      case (Key k)
      with ys list show ?thesis by simp
    next
      case (Index i)
      show ?thesis
      proof (cases "i < length xs")
        case True
        with ys have "fields_to_enum (xs ! i) field_names enum fallback = Inr (ys ! i)" by simp
        note IH = Cons.IH[OF this]
        have b: "value_at body (x # q) = value_at (xs ! i) q"
          using list Index True by simp
        have r: "value_at r (x # q) = value_at (ys ! i) q"
          using ys Index True by simp
        have c: "(x # q \<noteq> [] \<and> (\<exists>k. last (x # q) = Key k \<and> k \<in> set field_names)) =
                 (q \<noteq> [] \<and> (\<exists>k. last q = Key k \<and> k \<in> set field_names))"
          using Index by simp
        show ?thesis unfolding b r c by (rule IH)
      next
        case False
        with ys list Index show ?thesis by simp
      qed
    qed
  next
    case (dict items)
    show ?thesis
    proof (cases x)
      case (Index i)
      from fields_to_enum_PDict[of items field_names enum fallback r undefined] fte dict
      obtain items' where "r = PDict items'" by auto
      with dict Index show ?thesis by simp
    next
      case (Key k)
      from fields_to_enum_PDict[of items field_names enum fallback r k] fte dict
      obtain items' where i: "r = PDict items'"
        "map_of items k = None \<longrightarrow> map_of items' k = None"
        "\<forall>v. map_of items k = Some v \<longrightarrow>
            (\<exists>v'. item_result field_names enum fallback k v = Inr v'
               \<and> map_of items' k = Some v')"
        by auto
      show ?thesis
      proof (cases "map_of items k")
        case None
        with i dict Key show ?thesis by simp
      next
        case (Some v)
        with i obtain v' where v': "item_result field_names enum fallback k v = Inr v'"
          "map_of items' k = Some v'" by auto
        have b: "value_at body (x # q) = value_at v q"
          using dict Key Some by simp
        have r: "value_at r (x # q) = value_at v' q"
          using i(1) Key v'(2) by simp
        show ?thesis
        proof (cases "\<exists>s. v = PStr s")
          case True
          then obtain s where s: "v = PStr s" ..
          with v' have v'_eq: "v' = (if k \<in> set field_names
                  then PEnum (case enum s of Inr c \<Rightarrow> c | Inl e \<Rightarrow> fallback)
                  else PStr s)"
            by (simp add: item_result_PStr)
          show ?thesis
          proof (cases q)
            case Nil
            with s v'_eq Key show ?thesis unfolding b r by simp
          next
            case (Cons y q')
            with s v'_eq show ?thesis unfolding b r by simp
          qed
        next
          case False
          with v' have "fields_to_enum v field_names enum fallback = Inr v'"
            by (simp add: item_result_other)
          note IH = Cons.IH[OF this]
          show ?thesis
          proof (cases q)
            case Nil
            with False IH show ?thesis unfolding b r by simp
          next
            case (Cons y q')
            then have c: "(x # q \<noteq> [] \<and> (\<exists>k. last (x # q) = Key k \<and> k \<in> set field_names)) =
                 (q \<noteq> [] \<and> (\<exists>k. last q = Key k \<and> k \<in> set field_names))"
              by simp
            show ?thesis unfolding b r c by (rule IH)
          qed
        qed
      qed
    qed
  qed
qed

lemma value_at_append:
  "value_at body (p @ q) = (case value_at body p of None \<Rightarrow> None | Some v \<Rightarrow> value_at v q)"
proof (induction p arbitrary: body)
  case Nil
  show ?case by simp
next
  case (Cons x p)
  show ?case
  proof (cases x)
    case (Key k)
    show ?thesis
    proof (cases "\<exists>items. body = PDict items")
      case True
      then obtain items where "body = PDict items" ..
      with Key Cons.IH show ?thesis by (simp split: option.split)
    next
      case False
      with Key show ?thesis by (cases body) simp_all
    qed
  next
    case (Index i)
    show ?thesis
    proof (cases "\<exists>xs. body = PList xs")
      case True
      then obtain xs where "body = PList xs" ..
      with Index Cons.IH show ?thesis by simp
    next
      case False
      with Index show ?thesis by (cases body) simp_all
    qed
  qed
qed

lemma fields_to_enum_named:
  assumes "value_at body (p @ [Key k]) = Some (PStr s)" and "k \<in> set field_names"
    and "fields_to_enum body field_names enum fallback = Inr r"
  shows "value_at r (p @ [Key k]) =
           Some (PEnum (case enum s of Inr c \<Rightarrow> c | Inl e \<Rightarrow> fallback))"
  using value_at_fields_to_enum[OF assms(3), of "p @ [Key k]"] assms(1,2) by simp

lemma fields_to_enum_kept:
  assumes "value_at body q = Some v"
    and "\<forall>xs. v \<noteq> PList xs" and "\<forall>items. v \<noteq> PDict items"
    and "\<not> (\<exists>p k s. q = p @ [Key k] \<and> k \<in> set field_names \<and> v = PStr s)"
    and "fields_to_enum body field_names enum fallback = Inr r"
  shows "value_at r q = Some v"
proof (cases "\<exists>s. v = PStr s")
  case True
  then obtain s where s: "v = PStr s" ..
  have "\<not> (q \<noteq> [] \<and> (\<exists>k. last q = Key k \<and> k \<in> set field_names))"
  proof
    assume a: "q \<noteq> [] \<and> (\<exists>k. last q = Key k \<and> k \<in> set field_names)"
    then obtain k where k: "last q = Key k" "k \<in> set field_names" by blast
    from a have "q = butlast q @ [last q]" by simp
    with k s assms(4) show False by metis
  qed
  with value_at_fields_to_enum[OF assms(5), of q] assms(1) s show ?thesis by simp
next
  case False
  with value_at_fields_to_enum[OF assms(5), of q] assms(1)
  obtain v' where "value_at r q = Some v'" "fields_to_enum v field_names enum fallback = Inr v'"
    by blast
  with fields_to_enum_leaf[OF assms(2,3), of field_names enum fallback] show ?thesis by simp
qed

lemma code_status_request_result:
  assumes "\<forall>rq. tr rq = Inr response" and "has_app_auth self"
    and "json_body response = Some data"
  shows "fst (get_code_status_request env tr self code user_id) =
           fields_to_enum data [''status''] (CodeStatus env) (UNKNOWN_VALUE env)"
    and "fst (redeem_code_request env tr self code user_id) =
           fields_to_enum data [''status''] (CodeStatus env) (UNKNOWN_VALUE env)"
  using assms
  by (simp_all add: get_code_status_request_def redeem_code_request_def api_get_request_def
      api_post_request_def generate_header_def decode_def response_json_def Let_def)

text \<open>
  C7. \<open>fields_to_enum\<close> returns a body, and never an exception, for every decoded
  body, every enumeration and every fallback, also when the enumeration raises on each
  string. Wherever in the body a named field holds a string, however deep in records and
  lists, the result has there the fallback when the enumeration knows no member for the
  string, and the member it denotes otherwise. Every other value that is no record and no
  list is where it was, and nothing is added. \<open>get_code_status\<close> and
  \<open>redeem_code\<close> apply it, after their size test, to the field \<open>status\<close> of the
  decoded answer, with \<open>CodeStatus\<close> and \<open>UNKNOWN_VALUE\<close>.
\<close>

theorem fields_to_enum_never_fails:
  "(\<exists>r. fields_to_enum body field_names enum fallback = Inr r
      \<and> (value_at body (p @ [Key k]) = Some (PStr s) \<and> k \<in> set field_names
            \<and> enum s = Inl e \<longrightarrow>
          value_at r (p @ [Key k]) = Some (PEnum fallback))
      \<and> (value_at body (p @ [Key k]) = Some (PStr s) \<and> k \<in> set field_names
            \<and> enum s = Inr c \<longrightarrow>
          value_at r (p @ [Key k]) = Some (PEnum c))
      \<and> (value_at body q = Some v \<and> (\<forall>xs. v \<noteq> PList xs) \<and> (\<forall>items. v \<noteq> PDict items)
            \<and> \<not> (\<exists>p' k' s'. q = p' @ [Key k'] \<and> k' \<in> set field_names \<and> v = PStr s') \<longrightarrow>
          value_at r q = Some v)
      \<and> (value_at body q = None \<longrightarrow> value_at r q = None))
   \<and> ((\<forall>rq. tr rq = Inr response) \<and> has_app_auth self \<and> json_body response = Some data \<longrightarrow>
        (\<exists>r. fields_to_enum data [''status''] (CodeStatus env) (UNKNOWN_VALUE env) = Inr r
           \<and> fst (get_code_status_request env tr self code user_id) = Inr r
           \<and> fst (redeem_code_request env tr self code user_id) = Inr r))
   \<and> get_code_status env tr self code user_id =
        (case code_count_check code of
           Some e \<Rightarrow> (Inl e, [])
         | None \<Rightarrow> get_code_status_request env tr self code user_id)
   \<and> redeem_code env tr self code user_id =
        (case code_count_check code of
           Some e \<Rightarrow> (Inl e, [])
         | None \<Rightarrow> redeem_code_request env tr self code user_id)"
proof (intro conjI)
  from fields_to_enum_returns[of body field_names enum fallback]
  obtain r where r: "fields_to_enum body field_names enum fallback = Inr r" ..
  have "value_at r (p @ [Key k]) = Some (PEnum fallback)"
    if "value_at body (p @ [Key k]) = Some (PStr s) \<and> k \<in> set field_names \<and> enum s = Inl e"
    using fields_to_enum_named[of body p k s field_names enum fallback r] that r by simp
  moreover have "value_at r (p @ [Key k]) = Some (PEnum c)"
    if "value_at body (p @ [Key k]) = Some (PStr s) \<and> k \<in> set field_names \<and> enum s = Inr c"
    using fields_to_enum_named[of body p k s field_names enum fallback r] that r by simp
  moreover have "value_at r q = Some v"
    if "value_at body q = Some v \<and> (\<forall>xs. v \<noteq> PList xs) \<and> (\<forall>items. v \<noteq> PDict items)
            \<and> \<not> (\<exists>p' k' s'. q = p' @ [Key k'] \<and> k' \<in> set field_names \<and> v = PStr s')"
    using fields_to_enum_kept[of body q v field_names enum fallback r] that r by simp
  moreover have "value_at body q = None \<longrightarrow> value_at r q = None"
    using value_at_fields_to_enum[OF r, of q] by simp
  ultimately show "\<exists>r. fields_to_enum body field_names enum fallback = Inr r
      \<and> (value_at body (p @ [Key k]) = Some (PStr s) \<and> k \<in> set field_names
            \<and> enum s = Inl e \<longrightarrow>
          value_at r (p @ [Key k]) = Some (PEnum fallback))
      \<and> (value_at body (p @ [Key k]) = Some (PStr s) \<and> k \<in> set field_names
            \<and> enum s = Inr c \<longrightarrow>
          value_at r (p @ [Key k]) = Some (PEnum c))
      \<and> (value_at body q = Some v \<and> (\<forall>xs. v \<noteq> PList xs) \<and> (\<forall>items. v \<noteq> PDict items)
            \<and> \<not> (\<exists>p' k' s'. q = p' @ [Key k'] \<and> k' \<in> set field_names \<and> v = PStr s') \<longrightarrow>
          value_at r q = Some v)
      \<and> (value_at body q = None \<longrightarrow> value_at r q = None)"
    using r by (intro exI[of _ r]) simp
next
  show "(\<forall>rq. tr rq = Inr response) \<and> has_app_auth self \<and> json_body response = Some data \<longrightarrow>
        (\<exists>r. fields_to_enum data [''status''] (CodeStatus env) (UNKNOWN_VALUE env) = Inr r
           \<and> fst (get_code_status_request env tr self code user_id) = Inr r
           \<and> fst (redeem_code_request env tr self code user_id) = Inr r)"
  proof
    assume a: "(\<forall>rq. tr rq = Inr response) \<and> has_app_auth self \<and> json_body response = Some data"
    from fields_to_enum_returns[of data "[''status'']" "CodeStatus env" "UNKNOWN_VALUE env"]
    obtain r where r: "fields_to_enum data [''status''] (CodeStatus env) (UNKNOWN_VALUE env) = Inr r" ..
    from a have "fst (get_code_status_request env tr self code user_id) =
           fields_to_enum data [''status''] (CodeStatus env) (UNKNOWN_VALUE env)"
      and "fst (redeem_code_request env tr self code user_id) =
           fields_to_enum data [''status''] (CodeStatus env) (UNKNOWN_VALUE env)"
      by (simp_all add: code_status_request_result)
    with r show "\<exists>r. fields_to_enum data [''status''] (CodeStatus env) (UNKNOWN_VALUE env) = Inr r
           \<and> fst (get_code_status_request env tr self code user_id) = Inr r
           \<and> fst (redeem_code_request env tr self code user_id) = Inr r"
      by (intro exI[of _ r]) simp
  qed
next
  show "get_code_status env tr self code user_id =
        (case code_count_check code of
           Some e \<Rightarrow> (Inl e, [])
         | None \<Rightarrow> get_code_status_request env tr self code user_id)"
    by (simp only: get_code_status_def)
next
  show "redeem_code env tr self code user_id =
        (case code_count_check code of
           Some e \<Rightarrow> (Inl e, [])
         | None \<Rightarrow> redeem_code_request env tr self code user_id)"
    by (simp only: redeem_code_def)
qed


theorem fields_to_enum_never_fails_witness:
  "fields_to_enum sample_body [''status''] (CodeStatus sample_env) (UNKNOWN_VALUE sample_env) =
     Inr sample_normalised
   \<and> value_at sample_body [Key ''data'', Index 1, Key ''status''] =
       Some (PStr ''totally-unknown-value'')
   \<and> CodeStatus sample_env ''totally-unknown-value'' = Inl ValueError
   \<and> value_at sample_normalised [Key ''data'', Index 1, Key ''status''] =
       Some (PEnum ''UNKNOWN_VALUE'')
   \<and> value_at sample_body [Key ''data'', Index 0, Key ''status''] = Some (PStr ''ALREADY_CLAIMED'')
   \<and> CodeStatus sample_env ''ALREADY_CLAIMED'' = Inr ''ALREADY_CLAIMED''
   \<and> value_at sample_normalised [Key ''data'', Index 0, Key ''status''] =
       Some (PEnum ''ALREADY_CLAIMED'')
   \<and> value_at sample_body [Key ''data'', Index 1, Key ''code''] = Some (PStr ''XZDDZ-5SIQR-RT5M3'')
   \<and> value_at sample_normalised [Key ''data'', Index 1, Key ''code''] =
       Some (PStr ''XZDDZ-5SIQR-RT5M3'')
   \<and> value_at sample_body [Key ''data'', Index 5] = None
   \<and> value_at sample_normalised [Key ''data'', Index 5] = None
   \<and> has_app_auth (fst (snd (authenticate_app sample_env granting sample_client [])))
   \<and> fst (get_code_status_request sample_env (answering sample_body)
            (fst (snd (authenticate_app sample_env granting sample_client [])))
            [''KUHXV-4GXYP-AKAKK'', ''XZDDZ-5SIQR-RT5M3''] 1) = Inr sample_normalised
   \<and> fst (redeem_code_request sample_env (answering sample_body)
            (fst (snd (authenticate_app sample_env granting sample_client [])))
            [''KUHXV-4GXYP-AKAKK'', ''XZDDZ-5SIQR-RT5M3''] 1) = Inr sample_normalised"
  using fields_to_enum_never_fails[where body = sample_body and field_names = "[''status'']"
      and enum = "CodeStatus sample_env" and fallback = "UNKNOWN_VALUE sample_env"
      and p = "[Key ''data'', Index 1]" and k = "''status''" and s = "''totally-unknown-value''"
      and e = ValueError and c = "''ALREADY_CLAIMED''"
      and q = "[Key ''data'', Index 1, Key ''code'']" and v = "PStr ''XZDDZ-5SIQR-RT5M3''"
      and tr = "answering sample_body"
      and response = "\<lparr>status_code = 200, body_text = ''ok'', json_body = Some sample_body\<rparr>"
      and self = "fst (snd (authenticate_app sample_env granting sample_client []))"
      and data = sample_body and env = sample_env
      and code = "[''KUHXV-4GXYP-AKAKK'', ''XZDDZ-5SIQR-RT5M3'']" and user_id = 1]
    fields_to_enum_never_fails[where body = sample_body and field_names = "[''status'']"
      and enum = "CodeStatus sample_env" and fallback = "UNKNOWN_VALUE sample_env"
      and p = "[Key ''data'', Index 0]" and k = "''status''" and s = "''ALREADY_CLAIMED''"
      and e = ValueError and c = "''ALREADY_CLAIMED''"
      and q = "[Key ''data'', Index 5]" and v = PNone
      and tr = "answering sample_body"
      and response = "\<lparr>status_code = 200, body_text = ''ok'', json_body = Some sample_body\<rparr>"
      and self = "fst (snd (authenticate_app sample_env granting sample_client []))"
      and data = sample_body and env = sample_env
      and code = "[''KUHXV-4GXYP-AKAKK'', ''XZDDZ-5SIQR-RT5M3'']" and user_id = 1]
  by (simp add: sample_defs sample_body_def sample_normalised_def answering_def
      get_code_status_request_def redeem_code_request_def api_get_request_def
      api_post_request_def generate_header_def decode_def response_json_def)

end
